theory Spec2Isabelle
  imports Main "HOL-Library.Word" "HOL-Library.Sublist"
begin

section \<open>The generator of wintun-lib-embedded (cmd/generate.go)\<close>

text \<open>
  A Go \<open>string\<close> is a sequence of bytes, and so is an Isabelle \<open>string\<close>: one \<open>char\<close>
  per byte. A \<open>[]byte\<close> is a list of 8-bit words. A Go \<open>error\<close> is represented by its
  message; \<open>fmt.Errorf("...: %w", err)\<close> is the prefix followed by the message of the
  wrapped error. A function returning \<open>(T, error)\<close> returns \<open>error + T\<close>, with \<open>Inl\<close>
  for a non-nil error.
\<close>

type_synonym byte = "8 word"
type_synonym error = string

subsection \<open>Library functions the generator calls\<close>

text \<open>
  \<open>strings.TrimSpace\<close> removes leading and trailing white space as defined by Unicode
  (\<open>unicode.IsSpace\<close>). On the bytes of a string these are the UTF-8 encodings of
  U+0009..U+000D, U+0020, U+0085, U+00A0, U+1680, U+2000..U+200A, U+2028, U+2029, U+202F,
  U+205F and U+3000. No encoding in the table is a prefix or a suffix of another, so the
  order of the table does not matter.
\<close>

definition spaceEncodings :: "string list" where
  "spaceEncodings =
     [[CHR 0x09], [CHR 0x0A], [CHR 0x0B], [CHR 0x0C], [CHR 0x0D], [CHR 0x20],
      [CHR 0xC2, CHR 0x85], [CHR 0xC2, CHR 0xA0],
      [CHR 0xE1, CHR 0x9A, CHR 0x80],
      [CHR 0xE2, CHR 0x80, CHR 0x80], [CHR 0xE2, CHR 0x80, CHR 0x81],
      [CHR 0xE2, CHR 0x80, CHR 0x82], [CHR 0xE2, CHR 0x80, CHR 0x83],
      [CHR 0xE2, CHR 0x80, CHR 0x84], [CHR 0xE2, CHR 0x80, CHR 0x85],
      [CHR 0xE2, CHR 0x80, CHR 0x86], [CHR 0xE2, CHR 0x80, CHR 0x87],
      [CHR 0xE2, CHR 0x80, CHR 0x88], [CHR 0xE2, CHR 0x80, CHR 0x89],
      [CHR 0xE2, CHR 0x80, CHR 0x8A],
      [CHR 0xE2, CHR 0x80, CHR 0xA8], [CHR 0xE2, CHR 0x80, CHR 0xA9],
      [CHR 0xE2, CHR 0x80, CHR 0xAF],
      [CHR 0xE2, CHR 0x81, CHR 0x9F],
      [CHR 0xE3, CHR 0x80, CHR 0x80]]"

text \<open>The number of bytes of the white-space rune a string starts with, 0 when it
  starts with none (\<open>utf8.DecodeRuneInString\<close> followed by \<open>unicode.IsSpace\<close>).\<close>

definition leadingSpaceWidth :: "string \<Rightarrow> nat" where
  "leadingSpaceWidth s =
     (case find (\<lambda>p. prefix p s) spaceEncodings of None \<Rightarrow> 0 | Some p \<Rightarrow> length p)"

text \<open>The same at the end of the string (\<open>utf8.DecodeLastRuneInString\<close>).\<close>

definition trailingSpaceWidth :: "string \<Rightarrow> nat" where
  "trailingSpaceWidth s =
     (case find (\<lambda>p. suffix p s) spaceEncodings of None \<Rightarrow> 0 | Some p \<Rightarrow> length p)"

lemma leadingSpaceWidth_le: "leadingSpaceWidth s \<le> length s"
  unfolding leadingSpaceWidth_def
  by (auto split: option.splits simp: find_Some_iff prefix_length_le)

lemma trailingSpaceWidth_le: "trailingSpaceWidth s \<le> length s"
  unfolding trailingSpaceWidth_def
  by (auto split: option.splits simp: find_Some_iff suffix_length_le)

function TrimLeftSpace :: "string \<Rightarrow> string" where
  "TrimLeftSpace s =
     (if leadingSpaceWidth s = 0 then s else TrimLeftSpace (drop (leadingSpaceWidth s) s))"
  by pat_completeness auto
termination
proof (relation "measure length")
  show "wf (measure length)" by simp
next
  fix s :: string
  assume "leadingSpaceWidth s \<noteq> 0"
  moreover have "leadingSpaceWidth s \<le> length s" by (rule leadingSpaceWidth_le)
  ultimately show "(drop (leadingSpaceWidth s) s, s) \<in> measure length" by simp
qed

function TrimRightSpace :: "string \<Rightarrow> string" where
  "TrimRightSpace s =
     (if trailingSpaceWidth s = 0 then s
      else TrimRightSpace (take (length s - trailingSpaceWidth s) s))"
  by pat_completeness auto
termination
proof (relation "measure length")
  show "wf (measure length)" by simp
next
  fix s :: string
  assume "trailingSpaceWidth s \<noteq> 0"
  moreover have "trailingSpaceWidth s \<le> length s" by (rule trailingSpaceWidth_le)
  ultimately show "(take (length s - trailingSpaceWidth s) s, s) \<in> measure length" by simp
qed

declare TrimLeftSpace.simps [simp del] TrimRightSpace.simps [simp del]

definition TrimSpace :: "string \<Rightarrow> string" where
  "TrimSpace s = TrimRightSpace (TrimLeftSpace s)"

text \<open>
  \<open>strings.Index\<close> for a one-byte separator: the position of its first occurrence.
  Go returns -1 when there is none; the model returns \<open>None\<close>.
\<close>

fun IndexByte :: "string \<Rightarrow> char \<Rightarrow> nat option" where
  "IndexByte [] sep = None"
| "IndexByte (c # cs) sep = (if c = sep then Some 0 else map_option Suc (IndexByte cs sep))"

text \<open>
  \<open>strings.SplitN(s, sep, n)\<close>. The generator only ever splits at the one-byte separator
  \<open>"."\<close>, so the separator is a byte here. \<open>genSplit s sep k\<close> is the loop of the library
  with \<open>k\<close> cuts still allowed; the last piece is the unsplit remainder.
\<close>

fun genSplit :: "string \<Rightarrow> char \<Rightarrow> nat \<Rightarrow> string list" where
  "genSplit s sep 0 = [s]"
| "genSplit s sep (Suc k) =
     (case IndexByte s sep of
        None \<Rightarrow> [s]
      | Some m \<Rightarrow> take m s # genSplit (drop (m + 1) s) sep k)"

definition SplitN :: "string \<Rightarrow> char \<Rightarrow> int \<Rightarrow> string list" where
  "SplitN s sep n =
     (if n = 0 then []
      else if n < 0 then genSplit s sep (count_list s sep)
      else genSplit s sep (nat n - 1))"

text \<open>\<open>strings.ReplaceAll(s, old, new)\<close> for a one-byte \<open>old\<close>.\<close>

definition ReplaceAll :: "string \<Rightarrow> char \<Rightarrow> string \<Rightarrow> string" where
  "ReplaceAll s old new = concat (map (\<lambda>c. if c = old then new else [c]) s)"

text \<open>The verb \<open>%d\<close> of \<open>fmt.Sprintf\<close> on an \<open>int\<close>: decimal, with a sign when negative.\<close>

definition digitChar :: "nat \<Rightarrow> char" where
  "digitChar d = char_of (48 + d)"

function decimal :: "nat \<Rightarrow> string" where
  "decimal n = (if n < 10 then [digitChar n] else decimal (n div 10) @ [digitChar (n mod 10)])"
  by pat_completeness auto
termination
  by (relation "measure id") auto

declare decimal.simps [simp del]

definition fmt_d :: "int \<Rightarrow> string" where
  "fmt_d i = (if i < 0 then CHR ''-'' # decimal (nat (- i)) else decimal (nat i))"

subsection \<open>normalizeVersion\<close>

text \<open>
  The loop \<open>for i := len(split) - 1; i < 3; i++ { split = append(split, "0") }\<close>.
\<close>

function padLoop :: "int \<Rightarrow> string list \<Rightarrow> string list" where
  "padLoop i split = (if i < 3 then padLoop (i + 1) (split @ [''0'']) else split)"
  by pat_completeness auto
termination
  by (relation "measure (\<lambda>(i, split). nat (3 - i))") auto

declare padLoop.simps [simp del]

definition normalizeVersion :: "string \<Rightarrow> error + string" where
  "normalizeVersion ver =
     (let trimVer = TrimSpace ver in
      if trimVer = [] then Inl (''invalid version '' @ [CHR 0x27] @ trimVer @ [CHR 0x27])
      else
        let split = SplitN trimVer (CHR ''.'') 3;
            split = padLoop (int (length split) - 1) split
        in Inr (split ! 0 @ ''.'' @ split ! 1 @ ''.'' @ ReplaceAll (split ! 2) (CHR ''.'') ''_''))"

subsection \<open>byteize and the template\<close>

text \<open>
  \<open>byteize\<close> appends \<open>fmt.Sprintf("%d,", int(v))\<close> to a \<open>strings.Builder\<close> for every
  byte \<open>v\<close> of the data, in order; the builder is the accumulator of the fold.
\<close>

definition byteize :: "byte list \<Rightarrow> string" where
  "byteize data = fold (\<lambda>v sb. sb @ (fmt_d (uint v) @ '','')) data []"

text \<open>The text of the template before and after the action \<open>{{ byteize . }}\<close>.\<close>

definition tplHead :: string where
  "tplHead =
     ''// Code generated by wintun-lib-embedded; DO NOT EDIT.'' @ [CHR 0x0A] @
     ''package wintunlib'' @ [CHR 0x0A] @
     [CHR 0x0A] @
     ''var binary = []byte{ ''"

definition tplTail :: string where
  "tplTail =
     '' }'' @ [CHR 0x0A] @
     [CHR 0x0A] @
     ''// GetBinary returns the Wintun library according to GOARCH (compile time).'' @ [CHR 0x0A] @
     ''// The library can be written to file as a dll file and thereafter it can be loaded.'' @ [CHR 0x0A] @
     ''func GetBinary() []byte { return binary }'' @ [CHR 0x0A] @
     [CHR 0x0A]"

text \<open>
  The template is an \<open>html/template\<close>. Its fixed text holds no \<open><\<close>, so the whole
  template is HTML text and the action is in text context: the package pipes the action's
  string through its HTML escaper, which replaces the bytes of \<open>htmlReplacementTable\<close>
  (NUL by U+FFFD, and the five characters below by character references) and copies every
  other byte.
\<close>

definition htmlReplacementTable :: "char \<Rightarrow> string option" where
  "htmlReplacementTable c =
     (if c = CHR 0x00 then Some [CHR 0xEF, CHR 0xBF, CHR 0xBD]
      else if c = CHR 0x22 then Some ''&#34;''
      else if c = CHR ''&'' then Some ''&amp;''
      else if c = CHR 0x27 then Some ''&#39;''
      else if c = CHR ''+'' then Some ''&#43;''
      else if c = CHR ''<'' then Some ''&lt;''
      else if c = CHR ''>'' then Some ''&gt;''
      else None)"

definition htmlEscaper :: "string \<Rightarrow> string" where
  "htmlEscaper s =
     concat (map (\<lambda>c. case htmlReplacementTable c of None \<Rightarrow> [c] | Some r \<Rightarrow> r) s)"

text \<open>
  \<open>tpl.Execute(&out, binary)\<close>: the bytes written to the buffer. Neither \<open>byteize\<close> nor
  the buffer can fail, so the result is never an error.
\<close>

definition tpl_Execute :: "byte list \<Rightarrow> error + string" where
  "tpl_Execute data = Inr (tplHead @ htmlEscaper (byteize data) @ tplTail)"

text \<open>The plain substitution of the output of \<open>byteize\<close> into the template text, with no
  escaping: what a \<open>text/template\<close> would write.\<close>

definition plainSubstitution :: "byte list \<Rightarrow> string" where
  "plainSubstitution data = tplHead @ byteize data @ tplTail"

text \<open>
  A decoder for the literal that \<open>byteize\<close> emits: every element is a run of decimal digits
  closed by a comma, and its value must fit a byte.
\<close>

definition digitValue :: "char \<Rightarrow> nat option" where
  "digitValue c =
     (let n = of_char c :: nat in if 48 \<le> n \<and> n \<le> 57 then Some (n - 48) else None)"

fun parseDecimal :: "nat \<Rightarrow> string \<Rightarrow> nat option" where
  "parseDecimal acc [] = Some acc"
| "parseDecimal acc (c # cs) =
     (case digitValue c of None \<Rightarrow> None | Some d \<Rightarrow> parseDecimal (10 * acc + d) cs)"

definition atoi :: "string \<Rightarrow> nat option" where
  "atoi s = (if s = [] then None else parseDecimal 0 s)"

lemma IndexByte_less: "IndexByte s sep = Some m \<Longrightarrow> m < length s"
  by (induction s arbitrary: m) (auto split: if_splits)

function parseByteLiteral :: "string \<Rightarrow> byte list option" where
  "parseByteLiteral s =
     (if s = [] then Some []
      else case IndexByte s (CHR '','') of
        None \<Rightarrow> None
      | Some m \<Rightarrow>
          (case atoi (take m s) of
             None \<Rightarrow> None
           | Some n \<Rightarrow>
               if n < 256 then map_option ((#) (of_nat n)) (parseByteLiteral (drop (m + 1) s))
               else None))"
  by pat_completeness auto
termination
  by (relation "measure length") (auto dest: IndexByte_less)

declare parseByteLiteral.simps [simp del]

subsection \<open>Running a subprocess\<close>

text \<open>
  What \<open>cmd.CombinedOutput()\<close> and \<open>cmd.ProcessState.ExitCode()\<close> report of a finished
  command: the output, the error (nil is \<open>None\<close>), and the exit code, which is -1 for a
  process that did not start or was ended by a signal.
\<close>

record procResult =
  outb :: string
  err :: "error option"
  exitCode :: int

definition runWithOut :: "procResult \<Rightarrow> error + string" where
  "runWithOut r =
     (let out = outb r; code = exitCode r in
      if code \<noteq> - 1 \<and> code \<noteq> 0 then Inl (''exit code '' @ fmt_d code @ '': '' @ out)
      else case err r of
        Some e \<Rightarrow> Inl e
      | None \<Rightarrow> Inr out)"

text \<open>
  A command is its argument vector. The system is a function from the commands run so far
  and the command to run to what the command reports; the state threaded through the
  generator is the list of commands run so far.
\<close>

type_synonym cmd = "string list"
type_synonym system = "cmd list \<Rightarrow> cmd \<Rightarrow> procResult"

definition run :: "system \<Rightarrow> cmd \<Rightarrow> cmd list \<Rightarrow> (error + string) \<times> cmd list" where
  "run sys c hist = (runWithOut (sys hist c), hist @ [c])"

subsection \<open>downloadUrl\<close>

text \<open>The function writes one line to the log, the second component, and returns the URL.\<close>

definition downloadUrl :: "string \<Rightarrow> string list \<Rightarrow> string \<times> string list" where
  "downloadUrl version logged =
     (''https://www.wintun.net/builds/wintun-'' @ version @ ''.zip'',
      logged @ [''downloading version '' @ version])"

subsection \<open>unzipBinaries\<close>

definition goarchToWintunArch :: "(string \<times> string) list" where
  "goarchToWintunArch =
     [(''amd64'', ''amd64''), (''arm'', ''arm''), (''arm64'', ''arm64''), (''386'', ''x86'')]"

text \<open>
  An entry of the archive, as \<open>zip.NewReader\<close> lists it: its name, and what \<open>f.Open()\<close>
  followed by \<open>ioutil.ReadAll\<close> gives: either the error of \<open>Open\<close>, or the bytes read and
  the error of the read (nil is \<open>None\<close>).
\<close>

record zfile =
  Name :: string
  Open :: "error + (byte list \<times> error option)"

text \<open>A Go call either returns or panics; no caller of the generator recovers.\<close>

datatype 'a go = Returns 'a | Panics string

definition nilDereference :: string where
  "nilDereference = ''runtime error: invalid memory address or nil pointer dereference''"

text \<open>The index \<open>fmap\<close> of the entries by name; a later entry of the same name replaces
  an earlier one.\<close>

definition fileIndex :: "zfile list \<Rightarrow> (string \<rightharpoonup> zfile)" where
  "fileIndex files = fold (\<lambda>f fmap. fmap(Name f \<mapsto> f)) files Map.empty"

definition entryPath :: "string \<Rightarrow> string" where
  "entryPath v = ''wintun/bin/'' @ v @ ''/wintun.dll''"

text \<open>
  The loop over \<open>goarchToWintunArch\<close>. Go leaves the iteration order of a map open, so the
  order of the pairs is a parameter. A name that is not in \<open>fmap\<close> gives the nil
  \<open>*zip.File\<close>, and \<open>Open\<close> on the nil pointer reads a field of it: the run panics.
\<close>

fun extractLoop ::
  "(string \<rightharpoonup> zfile) \<Rightarrow> (string \<times> string) list \<Rightarrow> (string \<rightharpoonup> byte list)
     \<Rightarrow> (error + (string \<rightharpoonup> byte list)) go" where
  "extractLoop fmap [] bmap = Returns (Inr bmap)"
| "extractLoop fmap ((k, v) # rest) bmap =
     (case fmap (entryPath v) of
        None \<Rightarrow> Panics nilDereference
      | Some f \<Rightarrow>
          (case Open f of
             Inl e \<Rightarrow> Returns (Inl (''unable to open binary for GOARCH '' @ k))
           | Inr (data, rerr) \<Rightarrow>
               (let bmap = bmap(k \<mapsto> data) in
                case rerr of
                  Some e \<Rightarrow> Returns (Inl (''unable to read binary for GOARCH '' @ k))
                | None \<Rightarrow> extractLoop fmap rest bmap)))"

text \<open>\<open>zip.NewReader\<close> is a parameter: it gives the entries of the archive, or an error.\<close>

definition unzipBinaries ::
  "('r \<Rightarrow> int \<Rightarrow> error + zfile list) \<Rightarrow> (string \<times> string) list \<Rightarrow> 'r \<Rightarrow> int
     \<Rightarrow> (error + (string \<rightharpoonup> byte list)) go" where
  "unzipBinaries zip_NewReader order zipReader zipLen =
     (case zip_NewReader zipReader zipLen of
        Inl e \<Rightarrow> Returns (Inl (''unable to create zip reader: '' @ e))
      | Inr files \<Rightarrow> extractLoop (fileIndex files) order Map.empty)"

text \<open>An iteration order of the map: its pairs, each once.\<close>

definition iterationOrder :: "(string \<times> string) list \<Rightarrow> bool" where
  "iterationOrder order \<longleftrightarrow> distinct order \<and> set order = set goarchToWintunArch"

text \<open>The bytes of the entry for the upstream name \<open>v\<close>, when the entry is there and opens
  and reads without error.\<close>

definition entryBytes :: "(string \<rightharpoonup> zfile) \<Rightarrow> string \<Rightarrow> byte list option" where
  "entryBytes fmap v =
     (case fmap (entryPath v) of
        None \<Rightarrow> None
      | Some f \<Rightarrow> (case Open f of Inr (data, None) \<Rightarrow> Some data | _ \<Rightarrow> None))"

subsection \<open>generateFileForArch\<close>

text \<open>
  The file system as the function sees it: whether \<open>os.MkdirAll\<close> of a directory fails,
  whether \<open>ioutil.WriteFile\<close> of a file with some content fails and what it then leaves at
  the name, and the content of every file.
\<close>

record os_env =
  MkdirAll :: "string \<Rightarrow> error option"
  WriteFile :: "string \<Rightarrow> string \<Rightarrow> (error \<times> string option) option"
  files :: "string \<rightharpoonup> string"

definition generateDir :: string where
  "generateDir = ''.''"

text \<open>
  Template execution followed by \<open>format.Source\<close>. The formatter of the Go distribution and
  \<open>filepath.Join\<close> are parameters.
\<close>

definition renderAndFormat :: "(string \<Rightarrow> error + string) \<Rightarrow> byte list \<Rightarrow> error + string" where
  "renderAndFormat format_Source binary =
     (case tpl_Execute binary of
        Inl e \<Rightarrow> Inl (''unable to execute template: '' @ e)
      | Inr out \<Rightarrow>
          (case format_Source out of
             Inl e \<Rightarrow> Inl (''unable to format template output: '' @ e)
           | Inr fmtOut \<Rightarrow> Inr fmtOut))"

definition generateFileForArch ::
  "(string \<Rightarrow> error + string) \<Rightarrow> (string \<Rightarrow> string \<Rightarrow> string) \<Rightarrow> string \<Rightarrow> byte list
     \<Rightarrow> os_env \<Rightarrow> error option \<times> os_env" where
  "generateFileForArch format_Source filepath_Join arch binary env =
     (case MkdirAll env generateDir of
        Some e \<Rightarrow> (Some (''unable to create generate dir: '' @ e), env)
      | None \<Rightarrow>
          (case renderAndFormat format_Source binary of
             Inl e \<Rightarrow> (Some e, env)
           | Inr fmtOut \<Rightarrow>
               (let fname = filepath_Join generateDir (''lib_windows_'' @ arch @ ''.go'') in
                case WriteFile env fname fmtOut of
                  Some (e, left) \<Rightarrow>
                    (Some (''unable to write output file: '' @ e),
                     env\<lparr>files := (files env)(fname := left)\<rparr>)
                | None \<Rightarrow> (None, env\<lparr>files := (files env)(fname \<mapsto> fmtOut)\<rparr>))))"

subsection \<open>hasUncommittedChanges and pushToGit\<close>

definition hasUncommittedChanges :: "system \<Rightarrow> cmd list \<Rightarrow> (error + bool) \<times> cmd list" where
  "hasUncommittedChanges sys hist =
     (let cmd = [''git'', ''status'', ''--porcelain=v1''];
          (r, hist) = run sys cmd hist
      in case r of
           Inl e \<Rightarrow> (Inl (''unable to check git status: '' @ e), hist)
         | Inr out \<Rightarrow> (Inr (length (TrimSpace out) > 0), hist))"

definition pushToGit :: "system \<Rightarrow> string \<Rightarrow> cmd list \<Rightarrow> error option \<times> cmd list" where
  "pushToGit sys ver hist =
     (let addCmd = [''git'', ''add'', ''.''];
          (r, hist) = run sys addCmd hist
      in case r of
           Inl e \<Rightarrow> (Some (''unable to git add: '' @ e), hist)
         | Inr _ \<Rightarrow>
     (let commitCmd = [''git'', ''commit'', ''-m'', ''updated to Wintun version '' @ ver];
          (r, hist) = run sys commitCmd hist
      in case r of
           Inl e \<Rightarrow> (Some (''unable to create commit: '' @ e), hist)
         | Inr _ \<Rightarrow>
     (let tag = ''v'' @ ver;
          tagCmd = [''git'', ''tag'', ''-f'', ''-a'', tag, ''-m'', ''Wintun version '' @ ver];
          (r, hist) = run sys tagCmd hist
      in case r of
           Inl e \<Rightarrow> (Some (''unable to create git tag: '' @ e), hist)
         | Inr _ \<Rightarrow>
     (let pushCmd = [''git'', ''push'', ''--follow-tags''];
          (r, hist) = run sys pushCmd hist
      in case r of
           Inl e \<Rightarrow> (Some (''unable to push: '' @ e), hist)
         | Inr _ \<Rightarrow>
     (let tagPushCmd = [''git'', ''push'', ''origin'', tag];
          (r, hist) = run sys tagPushCmd hist
      in case r of
           Inl e \<Rightarrow> (Some (''unable to push tag: '' @ e), hist)
         | Inr _ \<Rightarrow> (None, hist))))))"

text \<open>
  The publishing sequence in the words of the specification: the five git operations, each
  with the name its failure is reported under, run in order up to the first failure.
\<close>

definition publishPlan :: "string \<Rightarrow> (cmd \<times> string) list" where
  "publishPlan v =
     [([''git'', ''add'', ''.''], ''unable to git add''),
      ([''git'', ''commit'', ''-m'', ''updated to Wintun version '' @ v], ''unable to create commit''),
      ([''git'', ''tag'', ''-f'', ''-a'', ''v'' @ v, ''-m'', ''Wintun version '' @ v],
         ''unable to create git tag''),
      ([''git'', ''push'', ''--follow-tags''], ''unable to push''),
      ([''git'', ''push'', ''origin'', ''v'' @ v], ''unable to push tag'')]"

fun runPlan :: "system \<Rightarrow> (cmd \<times> string) list \<Rightarrow> cmd list \<Rightarrow> error option \<times> cmd list" where
  "runPlan sys [] hist = (None, hist)"
| "runPlan sys ((c, name) # rest) hist =
     (case runWithOut (sys hist c) of
        Inl e \<Rightarrow> (Some (name @ '': '' @ e), hist @ [c])
      | Inr _ \<Rightarrow> runPlan sys rest (hist @ [c]))"

section \<open>Properties\<close>

subsection \<open>normalizeVersion\<close>

text \<open>After the padding loop the slice has four elements, so the three index expressions
  of \<open>normalizeVersion\<close> are in range.\<close>

lemma padLoop_length:
  "i \<le> 3 \<Longrightarrow> length (padLoop i split) = length split + nat (3 - i)"
proof (induction i split rule: padLoop.induct)
  case (1 i split)
  show ?case
  proof (cases "i < 3")
    case True
    with 1 show ?thesis by (subst padLoop.simps) (simp add: nat_diff_distrib)
  next
    case False
    with 1 show ?thesis by (subst padLoop.simps) simp
  qed
qed

lemma genSplit_length: "1 \<le> length (genSplit s sep k) \<and> length (genSplit s sep k) \<le> Suc k"
  by (induction k arbitrary: s) (auto split: option.splits)

lemma normalizeVersion_indices_in_range:
  "length (padLoop (int (length (SplitN t (CHR ''.'') 3)) - 1) (SplitN t (CHR ''.'') 3)) = 4"
proof -
  have l: "1 \<le> length (SplitN t (CHR ''.'') 3) \<and> length (SplitN t (CHR ''.'') 3) \<le> 3"
    using genSplit_length [of t "CHR ''.''" 2] by (simp add: SplitN_def)
  then show ?thesis by (subst padLoop_length) auto
qed

lemma IndexByte_None_iff: "IndexByte s c = None \<longleftrightarrow> c \<notin> set s"
  by (induction s) auto

lemma IndexByte_SomeD:
  "IndexByte s c = Some m \<Longrightarrow> s = take m s @ c # drop (m + 1) s \<and> c \<notin> set (take m s)"
proof (induction s arbitrary: m)
  case Nil
  then show ?case by simp
next
  case (Cons x xs)
  show ?case
  proof (cases "x = c")
    case True
    with Cons.prems show ?thesis by simp
  next
    case False
    with Cons.prems obtain k where k: "IndexByte xs c = Some k" "m = Suc k" by auto
    from Cons.IH [OF k(1)] False k(2) show ?thesis by auto
  qed
qed

lemma IndexByte_append:
  "c \<notin> set a \<Longrightarrow> IndexByte (a @ c # b) c = Some (length a)"
  by (induction a) auto

lemma padLoop_one: "padLoop 0 [a] = [a, ''0'', ''0'', ''0'']"
  by (simp add: padLoop.simps)

lemma padLoop_two: "padLoop 1 [a, b] = [a, b, ''0'', ''0'']"
  by (simp add: padLoop.simps)

lemma padLoop_three: "padLoop 2 [a, b, c] = [a, b, c, ''0'']"
  by (simp add: padLoop.simps)

lemma ReplaceAll_no_old: "old \<notin> set new \<Longrightarrow> old \<notin> set (ReplaceAll s old new)"
  by (auto simp: ReplaceAll_def)

lemma ReplaceAll_absent: "old \<notin> set s \<Longrightarrow> ReplaceAll s old new = s"
  unfolding ReplaceAll_def by (induction s) auto

lemma normalizeVersion_shape:
  assumes t: "TrimSpace ver \<noteq> []"
  shows "\<exists>a b c. normalizeVersion ver = Inr (a @ ''.'' @ b @ ''.'' @ c)
      \<and> CHR ''.'' \<notin> set a \<and> CHR ''.'' \<notin> set b \<and> CHR ''.'' \<notin> set c
      \<and> (TrimSpace ver = a \<and> b = ''0'' \<and> c = ''0''
         \<or> TrimSpace ver = a @ ''.'' @ b \<and> c = ''0''
         \<or> (\<exists>c'. TrimSpace ver = a @ ''.'' @ b @ ''.'' @ c' \<and> c = ReplaceAll c' (CHR ''.'') ''_''))"
proof (cases "IndexByte (TrimSpace ver) (CHR ''.'')")
  case None
  then have nodot: "CHR ''.'' \<notin> set (TrimSpace ver)" by (simp add: IndexByte_None_iff)
  from None t have "normalizeVersion ver = Inr (TrimSpace ver @ ''.'' @ ''0'' @ ''.'' @ ''0'')"
    by (simp add: normalizeVersion_def Let_def SplitN_def numeral_2_eq_2 padLoop_one ReplaceAll_def)
  with nodot show ?thesis by (intro exI [of _ "TrimSpace ver"] exI [of _ "''0''"]) simp
next
  case (Some m)
  define a where "a = take m (TrimSpace ver)"
  define rest where "rest = drop (m + 1) (TrimSpace ver)"
  from IndexByte_SomeD [OF Some] have tv: "TrimSpace ver = a @ ''.'' @ rest" and a: "CHR ''.'' \<notin> set a"
    by (simp_all add: a_def rest_def)
  show ?thesis
  proof (cases "IndexByte rest (CHR ''.'')")
    case None
    then have nodot: "CHR ''.'' \<notin> set rest" by (simp add: IndexByte_None_iff)
    from None Some t have "normalizeVersion ver = Inr (a @ ''.'' @ rest @ ''.'' @ ''0'')"
      by (simp add: normalizeVersion_def Let_def SplitN_def numeral_2_eq_2 padLoop_two ReplaceAll_def
          a_def rest_def)
    with nodot a tv show ?thesis
      by (intro exI [of _ a] exI [of _ rest] exI [of _ "''0''"]) simp
  next
    case inner: (Some k)
    define b where "b = take k rest"
    define c' where "c' = drop (k + 1) rest"
    from IndexByte_SomeD [OF inner] have r: "rest = b @ ''.'' @ c'" and b: "CHR ''.'' \<notin> set b"
      by (simp_all add: b_def c'_def)
    from inner Some t
    have "normalizeVersion ver = Inr (a @ ''.'' @ b @ ''.'' @ ReplaceAll c' (CHR ''.'') ''_'')"
      by (simp add: normalizeVersion_def Let_def SplitN_def numeral_2_eq_2 padLoop_three
          a_def rest_def b_def c'_def)
    moreover have "CHR ''.'' \<notin> set (ReplaceAll c' (CHR ''.'') ''_'')"
      by (rule ReplaceAll_no_old) simp
    moreover from tv r have "TrimSpace ver = a @ ''.'' @ b @ ''.'' @ c'" by simp
    ultimately show ?thesis using a b
      by (intro exI [of _ a] exI [of _ b] exI [of _ "ReplaceAll c' (CHR ''.'') ''_''"]) auto
  qed
qed

lemma Split_three:
  assumes "CHR ''.'' \<notin> set a" "CHR ''.'' \<notin> set b" "CHR ''.'' \<notin> set c"
  shows "SplitN (a @ ''.'' @ b @ ''.'' @ c) (CHR ''.'') (- 1) = [a, b, c]"
proof -
  have cnt: "count_list (a @ ''.'' @ b @ ''.'' @ c) (CHR ''.'') = 2"
    using assms by (simp add: count_list_0_iff)
  have i1: "IndexByte (a @ CHR ''.'' # b @ CHR ''.'' # c) (CHR ''.'') = Some (length a)"
    using assms(1) by (rule IndexByte_append)
  have i2: "IndexByte (b @ CHR ''.'' # c) (CHR ''.'') = Some (length b)"
    using assms(2) by (rule IndexByte_append)
  have i3: "IndexByte c (CHR ''.'') = None"
    using assms(3) by (simp add: IndexByte_None_iff)
  show ?thesis
    using cnt i1 i2 i3 by (simp add: SplitN_def numeral_2_eq_2)
qed

text \<open>
  Claim C3. For every raw version, \<open>normalizeVersion\<close> returns an error exactly when the
  trimmed input is empty. When it succeeds, the result is three components joined by two
  dots and none of the components holds a dot, so splitting the result at \<open>"."\<close> gives
  exactly these three; the components are the trimmed input cut at its first two dots,
  padded with \<open>"0"\<close>, with every further dot of the third replaced by an underscore.
\<close>

theorem normalizeVersion_three_components:
  "(isl (normalizeVersion ver) \<longleftrightarrow> TrimSpace ver = []) \<and>
   (\<forall>r. normalizeVersion ver = Inr r \<longrightarrow>
      (\<exists>a b c. r = a @ ''.'' @ b @ ''.'' @ c
         \<and> SplitN r (CHR ''.'') (- 1) = [a, b, c]
         \<and> CHR ''.'' \<notin> set a \<and> CHR ''.'' \<notin> set b \<and> CHR ''.'' \<notin> set c
         \<and> (TrimSpace ver = a \<and> b = ''0'' \<and> c = ''0''
            \<or> TrimSpace ver = a @ ''.'' @ b \<and> c = ''0''
            \<or> (\<exists>c'. TrimSpace ver = a @ ''.'' @ b @ ''.'' @ c'
                  \<and> c = ReplaceAll c' (CHR ''.'') ''_''))))"
proof (cases "TrimSpace ver = []")
  case True
  then show ?thesis by (simp add: normalizeVersion_def)
next
  case False
  from normalizeVersion_shape [OF False] obtain a b c where
    nv: "normalizeVersion ver = Inr (a @ ''.'' @ b @ ''.'' @ c)" and
    nd: "CHR ''.'' \<notin> set a" "CHR ''.'' \<notin> set b" "CHR ''.'' \<notin> set c" and
    sh: "TrimSpace ver = a \<and> b = ''0'' \<and> c = ''0''
         \<or> TrimSpace ver = a @ ''.'' @ b \<and> c = ''0''
         \<or> (\<exists>c'. TrimSpace ver = a @ ''.'' @ b @ ''.'' @ c' \<and> c = ReplaceAll c' (CHR ''.'') ''_'')"
    by blast
  have iff: "isl (normalizeVersion ver) \<longleftrightarrow> TrimSpace ver = []"
    using False nv by simp
  have "\<exists>a' b' c'. a @ ''.'' @ b @ ''.'' @ c = a' @ ''.'' @ b' @ ''.'' @ c'
         \<and> SplitN (a @ ''.'' @ b @ ''.'' @ c) (CHR ''.'') (- 1) = [a', b', c']
         \<and> CHR ''.'' \<notin> set a' \<and> CHR ''.'' \<notin> set b' \<and> CHR ''.'' \<notin> set c'
         \<and> (TrimSpace ver = a' \<and> b' = ''0'' \<and> c' = ''0''
            \<or> TrimSpace ver = a' @ ''.'' @ b' \<and> c' = ''0''
            \<or> (\<exists>c''. TrimSpace ver = a' @ ''.'' @ b' @ ''.'' @ c''
                  \<and> c' = ReplaceAll c'' (CHR ''.'') ''_''))"
    using nd sh Split_three [OF nd] by (intro exI [of _ a] exI [of _ b] exI [of _ c]) simp
  with iff nv show ?thesis by simp
qed

theorem normalizeVersion_three_components_witness:
  "\<not> isl (normalizeVersion ''1.2.3.4'') \<and> normalizeVersion ''1.2.3.4'' = Inr ''1.2.3_4''
   \<and> SplitN ''1.2.3_4'' (CHR ''.'') (- 1) = [''1'', ''2'', ''3_4'']"
proof -
  have e: "normalizeVersion ''1.2.3.4'' = Inr ''1.2.3_4''" by code_simp
  have t: "TrimSpace ''1.2.3.4'' \<noteq> []" by code_simp
  have s: "SplitN ''1.2.3_4'' (CHR ''.'') (- 1) = [''1'', ''2'', ''3_4'']" by code_simp
  from normalizeVersion_three_components [of "''1.2.3.4''"] e t s show ?thesis by simp
qed

text \<open>
  Claim C2. The four reference cases: \<open>"1.2"\<close> gives \<open>"1.2.0"\<close>, \<open>"1.2.3.4"\<close> gives
  \<open>"1.2.3_4"\<close>, the empty string gives an error, and \<open>"  1.2.3  "\<close> gives \<open>"1.2.3"\<close>.
\<close>

theorem normalizeVersion_reference_cases:
  "normalizeVersion ''1.2'' = Inr ''1.2.0'' \<and>
   normalizeVersion ''1.2.3.4'' = Inr ''1.2.3_4'' \<and>
   isl (normalizeVersion '''') \<and>
   normalizeVersion ''  1.2.3  '' = Inr ''1.2.3''"
  by code_simp


end
